theory Spec2Isabelle
  imports Complex_Main
begin

section \<open>Data model\<close>

text \<open>
  The client consists of two classes, \<^verbatim>\<open>Sockeon\<close> (src/index.ts) and the
  \<^verbatim>\<open>WebSocketTransport\<close> it owns (transport layer). The numbers of the configuration,
  of the clock and of the close codes are finite binary64 values and are given as the
  reals they denote (a literal such as 1.1 stands for the binary64 value nearest to it); the attempt
  counter, which only ever starts at 0 and is incremented, is a natural number. The
  reconnect delay is the one number the code computes by rounding arithmetic; it is a
  value of the type \<open>number\<close>, a finite number, an infinity or NaN. A decoded JSON value is a
  value of the datatype \<open>json\<close>; an object is an association list with distinct keys and
  a missing property (JavaScript's \<^verbatim>\<open>undefined\<close>) is \<open>None\<close>.
  Debug logging (\<^verbatim>\<open>this.log\<close>) writes to the console only and is not modelled.
  One run of a handler reads the clock (\<^verbatim>\<open>Date.now()\<close>) as a single instant \<open>now\<close>.
  The handlers that the application registers are opaque: they are called, and are
  taken not to call back into the client while an event is dispatched.
\<close>

datatype number = Num real | PosInfinity | NegInfinity | NaN

text \<open>
  JavaScript values: the values of JSON, and the three numbers that are not finite
  (an event payload built by the client can hold them).
\<close>

datatype json =
    JNull
  | JBool bool
  | JNum real
  | JNaN
  | JPosInfinity
  | JNegInfinity
  | JStr string
  | JArr "json list"
  | JObj "(string \<times> json) list"

datatype ConnectionState = Disconnected | Connecting | Connected | Reconnecting | Closing

text \<open>The \<^verbatim>\<open>readyState\<close> of a browser WebSocket.\<close>

datatype ReadyState = WS_CONNECTING | WS_OPEN | WS_CLOSING | WS_CLOSED

text \<open>Every exception of the source is \<^verbatim>\<open>new Error(message)\<close>.\<close>

datatype error = Error string

record ReconnectConfig =
  enabled :: bool
  maxAttempts :: real
  delay :: real
  maxDelay :: real
  factor :: real

record HeartbeatConfig =
  hb_enabled :: bool
  interval :: real
  timeout :: real

text \<open>
  Of the URL only two facts matter to the control flow: whether \<^verbatim>\<open>new URL(url)\<close>
  throws in \<^verbatim>\<open>buildUrl\<close>, and whether \<^verbatim>\<open>new WebSocket(url, protocols)\<close> throws. Both
  are given with the message of the error thrown; \<open>None\<close> means no error.
\<close>

record NormalizedSockeonOptions =
  namespace :: string
  reconnect :: ReconnectConfig
  heartbeat :: HeartbeatConfig
  urlError :: "string option"
  wsError :: "string option"

text \<open>
  What the client does to the outside world, in order: calls of
  \<^verbatim>\<open>this.events.emit\<close>, of the window's timer functions and of the WebSocket API.
\<close>

datatype effect =
    Emit string json
  | SetTimeout number
  | ClearTimeout
  | SetInterval real
  | ClearInterval
  | PingSetInterval real real
  | PingClearInterval
  | PongClearTimeout
  | NewWebSocket
  | WsClose real string
  | WsSend json

text \<open>
  The fields of \<^verbatim>\<open>Sockeon\<close>, followed by the fields of its \<^verbatim>\<open>WebSocketTransport\<close>
  (\<open>ws\<close> is \<open>None\<close> for \<^verbatim>\<open>null\<close>, otherwise the \<^verbatim>\<open>readyState\<close> of the socket it refers
  to), followed by the trace of effects. A timer handle is represented by the
  duration the timer was created with; \<open>pingInterval\<close> also keeps the timeout its
  callback closes over.
\<close>

record Sockeon =
  options :: NormalizedSockeonOptions
  state :: ConnectionState
  reconnectAttempts :: nat
  reconnectTimer :: "number option"
  heartbeatTimer :: "real option"
  connectedAt :: "real option"
  rooms :: "string list"
  manualDisconnect :: bool
  ws :: "ReadyState option"
  pingInterval :: "(real \<times> real) option"
  pongTimeout :: "real option"
  lastPongTime :: real
  trace :: "effect list"

definition out :: "effect \<Rightarrow> Sockeon \<Rightarrow> Sockeon" where
  "out e s = s\<lparr>trace := trace s @ [e]\<rparr>"

text \<open>The \<^verbatim>\<open>defaults\<close> of \<^verbatim>\<open>normalizeOptions\<close>.\<close>

definition default_reconnect :: ReconnectConfig where
  "default_reconnect =
     \<lparr>enabled = True, maxAttempts = 5, delay = 1000, maxDelay = 30000, factor = 1.5\<rparr>"

definition default_heartbeat :: HeartbeatConfig where
  "default_heartbeat = \<lparr>hb_enabled = True, interval = 30000, timeout = 5000\<rparr>"

definition default_options :: NormalizedSockeonOptions where
  "default_options =
     \<lparr>namespace = ''/'', reconnect = default_reconnect, heartbeat = default_heartbeat,
      urlError = None, wsError = None\<rparr>"

text \<open>The field initialisers of both classes.\<close>

definition new_Sockeon :: "NormalizedSockeonOptions \<Rightarrow> Sockeon" where
  "new_Sockeon opts =
     \<lparr>options = opts, state = Disconnected, reconnectAttempts = 0, reconnectTimer = None,
      heartbeatTimer = None, connectedAt = None, rooms = [], manualDisconnect = False,
      ws = None, pingInterval = None, pongTimeout = None, lastPongTime = 0, trace = []\<rparr>"

section \<open>JSON values as JavaScript sees them\<close>

definition typeof :: "json \<Rightarrow> string" where
  "typeof v = (case v of
       JNull \<Rightarrow> ''object''
     | JBool _ \<Rightarrow> ''boolean''
     | JNum _ \<Rightarrow> ''number''
     | JNaN \<Rightarrow> ''number''
     | JPosInfinity \<Rightarrow> ''number''
     | JNegInfinity \<Rightarrow> ''number''
     | JStr _ \<Rightarrow> ''string''
     | JArr _ \<Rightarrow> ''object''
     | JObj _ \<Rightarrow> ''object'')"

definition truthy :: "json \<Rightarrow> bool" where
  "truthy v = (case v of
       JNull \<Rightarrow> False
     | JBool b \<Rightarrow> b
     | JNum n \<Rightarrow> n \<noteq> 0
     | JNaN \<Rightarrow> False
     | JPosInfinity \<Rightarrow> True
     | JNegInfinity \<Rightarrow> True
     | JStr t \<Rightarrow> t \<noteq> []
     | JArr _ \<Rightarrow> True
     | JObj _ \<Rightarrow> True)"

text \<open>
  Property access \<^verbatim>\<open>msg.key\<close> on a decoded value: only objects carry the named
  properties \<^verbatim>\<open>event\<close> and \<^verbatim>\<open>data\<close>.
\<close>

definition getProp :: "string \<Rightarrow> json \<Rightarrow> json option" where
  "getProp k v = (case v of JObj kvs \<Rightarrow> map_of kvs k | _ \<Rightarrow> None)"

section \<open>JavaScript numbers\<close>

text \<open>
  A JavaScript number is an IEEE 754 binary64 value. \<open>fl64\<close> rounds a real to the
  nearest binary64 value, ties to even: \<open>exponent\<close> is the binary exponent of the
  argument (at least -1022, below which the values are subnormal), the values around the
  argument are the multiples of \<open>2 powi (exponent r - 52)\<close>, and a result of magnitude
  \<open>2 ^ 1024\<close> or more is an infinity. The two zeros are not distinguished.
\<close>

definition rne :: "real \<Rightarrow> int" where
  "rne x =
     (let f = \<lfloor>x\<rfloor>
      in if x - of_int f < 1 / 2 then f
         else if x - of_int f > 1 / 2 then f + 1
         else if even f then f else f + 1)"

definition exponent :: "real \<Rightarrow> int" where
  "exponent r = max (- 1022) \<lfloor>log 2 \<bar>r\<bar>\<rfloor>"

definition fl64 :: "real \<Rightarrow> number" where
  "fl64 r =
     (if r = 0 then Num 0
      else (let u = 2 powi (exponent r - 52);
                q = of_int (rne (r / u)) * u
            in if q \<ge> 2 ^ 1024 then PosInfinity
               else if q \<le> - (2 ^ 1024) then NegInfinity
               else Num q))"

text \<open>
  The operators of the delay computation. \<open>number_pow b k\<close> is \<^verbatim>\<open>b ** k\<close> for a finite
  base and a counter \<open>k\<close>: the exact power, rounded (ECMAScript leaves the last bits of
  \<^verbatim>\<open>**\<close> to the implementation). \<open>number_times a y\<close> is \<^verbatim>\<open>a * y\<close> for a finite
  \<open>a\<close>: the exact product, rounded; zero times an infinity is NaN. \<open>Math_min x m\<close> is
  \<^verbatim>\<open>Math.min(x, m)\<close> for a finite \<open>m\<close>: NaN if \<open>x\<close> is NaN. \<open>number_le\<close> is \<^verbatim>\<open><=\<close>, false
  whenever an operand is NaN.
\<close>

definition number_pow :: "real \<Rightarrow> nat \<Rightarrow> number" where
  "number_pow b k = fl64 (b ^ k)"

definition number_times :: "real \<Rightarrow> number \<Rightarrow> number" where
  "number_times a y =
     (case y of
        Num b \<Rightarrow> fl64 (a * b)
      | PosInfinity \<Rightarrow> (if a = 0 then NaN else if a > 0 then PosInfinity else NegInfinity)
      | NegInfinity \<Rightarrow> (if a = 0 then NaN else if a > 0 then NegInfinity else PosInfinity)
      | NaN \<Rightarrow> NaN)"

definition Math_min :: "number \<Rightarrow> real \<Rightarrow> number" where
  "Math_min x m =
     (case x of
        NaN \<Rightarrow> NaN
      | NegInfinity \<Rightarrow> NegInfinity
      | PosInfinity \<Rightarrow> Num m
      | Num a \<Rightarrow> Num (min a m))"


definition number_value :: "number \<Rightarrow> json" where
  "number_value x =
     (case x of
        Num r \<Rightarrow> JNum r
      | PosInfinity \<Rightarrow> JPosInfinity
      | NegInfinity \<Rightarrow> JNegInfinity
      | NaN \<Rightarrow> JNaN)"

section \<open>WebSocketTransport\<close>

definition isValidMessage :: "json \<Rightarrow> bool" where
  "isValidMessage message =
     (if \<not> truthy message \<or> typeof message \<noteq> ''object'' then False
      else case getProp ''event'' message of
             Some (JStr e) \<Rightarrow>
               if length e = 0 then False
               else if getProp ''data'' message = None then False
               else True
           | _ \<Rightarrow> False)"

definition stopHeartbeat :: "Sockeon \<Rightarrow> Sockeon" where
  "stopHeartbeat s =
     (let s1 = (if pingInterval s \<noteq> None
                then out PingClearInterval (s\<lparr>pingInterval := None\<rparr>) else s)
      in if pongTimeout s1 \<noteq> None
         then out PongClearTimeout (s1\<lparr>pongTimeout := None\<rparr>) else s1)"

definition transport_disconnect :: "real \<Rightarrow> string \<Rightarrow> Sockeon \<Rightarrow> Sockeon" where
  "transport_disconnect code reason s =
     (let s1 = stopHeartbeat s
      in case ws s1 of
           None \<Rightarrow> s1
         | Some rs \<Rightarrow>
             (if rs = WS_OPEN \<or> rs = WS_CONNECTING
              then (out (WsClose code reason) s1)\<lparr>ws := None\<rparr>
              else s1\<lparr>ws := None\<rparr>))"

text \<open>\<^verbatim>\<open>sendPing\<close> returns early unless the socket is open, and otherwise only logs.\<close>

definition sendPing :: "Sockeon \<Rightarrow> Sockeon" where
  "sendPing s = (if ws s \<noteq> Some WS_OPEN then s else s)"

text \<open>
  \<^verbatim>\<open>send\<close>: serialising a value of type \<open>json\<close> cannot throw, and \<^verbatim>\<open>ws.send\<close> on
  an open socket does not throw, so the \<^verbatim>\<open>catch\<close> branch is not reached here.
\<close>

definition transport_send :: "json \<Rightarrow> Sockeon \<Rightarrow> error option \<times> Sockeon" where
  "transport_send message s =
     (if ws s \<noteq> Some WS_OPEN then (Some (Error ''WebSocket is not connected''), s)
      else (None, out (WsSend message) s))"

text \<open>The callback that \<^verbatim>\<open>WebSocketTransport.startHeartbeat\<close> installs, and the method.\<close>

definition transport_heartbeat_tick :: "real \<Rightarrow> real \<Rightarrow> Sockeon \<Rightarrow> Sockeon" where
  "transport_heartbeat_tick tmo now s =
     (let timeSinceLastPong = now - lastPongTime s
      in if timeSinceLastPong > tmo then transport_disconnect 1000 ''Heartbeat timeout'' s
         else sendPing s)"

definition transport_startHeartbeat :: "real \<Rightarrow> real \<Rightarrow> Sockeon \<Rightarrow> Sockeon" where
  "transport_startHeartbeat ival tmo s =
     out (PingSetInterval ival tmo) ((stopHeartbeat s)\<lparr>pingInterval := Some (ival, tmo)\<rparr>)"

section \<open>Sockeon: timers and transport handlers\<close>

definition clearReconnectTimer :: "Sockeon \<Rightarrow> Sockeon" where
  "clearReconnectTimer s =
     (if reconnectTimer s \<noteq> None then out ClearTimeout (s\<lparr>reconnectTimer := None\<rparr>) else s)"

definition clearHeartbeatTimer :: "Sockeon \<Rightarrow> Sockeon" where
  "clearHeartbeatTimer s =
     (if heartbeatTimer s \<noteq> None then out ClearInterval (s\<lparr>heartbeatTimer := None\<rparr>) else s)"

definition startHeartbeat :: "Sockeon \<Rightarrow> Sockeon" where
  "startHeartbeat s =
     (let s1 = clearHeartbeatTimer s;
          ival = interval (heartbeat (options s1))
      in out (SetInterval ival) (s1\<lparr>heartbeatTimer := Some ival\<rparr>))"

text \<open>The callback that \<^verbatim>\<open>Sockeon.startHeartbeat\<close> passes to \<^verbatim>\<open>setInterval\<close>.\<close>

definition heartbeat_tick :: "Sockeon \<Rightarrow> Sockeon" where
  "heartbeat_tick s = (if state s = Connected then sendPing s else s)"

definition handleError :: "real \<Rightarrow> string \<Rightarrow> Sockeon \<Rightarrow> Sockeon" where
  "handleError now msg s =
     out (Emit ''error'' (JObj [(''message'', JStr msg), (''timestamp'', JNum now)])) s"

definition handlePong :: "Sockeon \<Rightarrow> Sockeon" where
  "handlePong s = s"

definition handleConnect :: "real \<Rightarrow> Sockeon \<Rightarrow> Sockeon" where
  "handleConnect now s =
     (let s1 = s\<lparr>state := Connected, connectedAt := Some now, reconnectAttempts := 0\<rparr>;
          s2 = clearReconnectTimer s1;
          s3 = (if hb_enabled (heartbeat (options s2)) then startHeartbeat s2 else s2)
      in out (Emit ''connect''
                (JObj [(''namespace'', JStr (namespace (options s3))),
                       (''timestamp'', JNum now)])) s3)"

text \<open>
  \<^verbatim>\<open>handleMessage\<close> receives a message that passed \<^verbatim>\<open>isValidMessage\<close>, given here
  by its two destructured components.
\<close>

definition handleMessage :: "string \<Rightarrow> json \<Rightarrow> Sockeon \<Rightarrow> Sockeon" where
  "handleMessage event data s = out (Emit event data) s"

text \<open>
  \<^verbatim>\<open>Math.min(delay * factor ** this.reconnectAttempts, maxDelay)\<close>, in binary64
  arithmetic.
\<close>

definition currentDelay :: "ReconnectConfig \<Rightarrow> nat \<Rightarrow> number" where
  "currentDelay cfg attempts =
     Math_min (number_times (delay cfg) (number_pow (factor cfg) attempts)) (maxDelay cfg)"

definition scheduleReconnect :: "Sockeon \<Rightarrow> Sockeon" where
  "scheduleReconnect s =
     (let cfg = reconnect (options s)
      in if maxAttempts cfg > 0 \<and> real (reconnectAttempts s) \<ge> maxAttempts cfg
         then out (Emit ''reconnect_failed''
                     (JObj [(''attempts'', JNum (real (reconnectAttempts s))),
                            (''maxAttempts'', JNum (maxAttempts cfg))])) s
         else
           (let d = currentDelay cfg (reconnectAttempts s);
                s1 = s\<lparr>reconnectAttempts := reconnectAttempts s + 1, state := Reconnecting\<rparr>;
                s2 = out (Emit ''reconnect_attempt''
                            (JObj [(''attempt'', JNum (real (reconnectAttempts s1))),
                                   (''delay'', number_value d)])) s1
            in out (SetTimeout d) (s2\<lparr>reconnectTimer := Some d\<rparr>)))"

definition handleDisconnect :: "real \<Rightarrow> string \<Rightarrow> Sockeon \<Rightarrow> Sockeon" where
  "handleDisconnect code reason s =
     (let s1 = clearHeartbeatTimer s;
          wasConnected = (state s1 = Connected);
          s2 = s1\<lparr>state := Disconnected, connectedAt := None, rooms := []\<rparr>;
          s3 = (if wasConnected
                then out (Emit ''disconnect''
                            (JObj [(''code'', JNum code), (''reason'', JStr reason)])) s2
                else s2)
      in if \<not> manualDisconnect s3 \<and> enabled (reconnect (options s3))
         then scheduleReconnect s3 else s3)"

text \<open>
  \<^verbatim>\<open>WebSocketTransport.connect\<close>. \<^verbatim>\<open>buildUrl\<close> runs before the \<^verbatim>\<open>try\<close>, so its error
  leaves the method; an error of the WebSocket constructor is caught and passed to the
  \<^verbatim>\<open>onError\<close> handler, which is \<open>handleError\<close>.
\<close>

definition transport_connect :: "real \<Rightarrow> Sockeon \<Rightarrow> error option \<times> Sockeon" where
  "transport_connect now s =
     (if ws s \<noteq> None \<and> ws s \<noteq> Some WS_CLOSED then (None, s)
      else case urlError (options s) of
             Some m \<Rightarrow> (Some (Error m), s)
           | None \<Rightarrow>
               (case wsError (options s) of
                  None \<Rightarrow> (None, out NewWebSocket (s\<lparr>ws := Some WS_CONNECTING\<rparr>))
                | Some m \<Rightarrow> (None, handleError now m s)))"

text \<open>
  An inbound frame is binary or text. A text frame is given by what \<^verbatim>\<open>JSON.parse\<close>
  makes of it: the decoded value, or \<open>None\<close> where \<^verbatim>\<open>JSON.parse\<close> throws. The
  destructuring of the validated message into \<^verbatim>\<open>event\<close> and \<^verbatim>\<open>data\<close> is done at
  the call of \<open>handleMessage\<close>.
\<close>

datatype frame = Binary | Text "json option"

definition transport_handleMessage :: "real \<Rightarrow> frame \<Rightarrow> Sockeon \<Rightarrow> Sockeon" where
  "transport_handleMessage now fr s =
     (case fr of
        Binary \<Rightarrow> handlePong (s\<lparr>lastPongTime := now\<rparr>)
      | Text parsed \<Rightarrow>
          (case parsed of
             None \<Rightarrow> handleError now ''Failed to parse message'' s
           | Some message \<Rightarrow>
               if \<not> isValidMessage message
               then handleError now ''Invalid message format'' s
               else (case (getProp ''event'' message, getProp ''data'' message) of
                       (Some (JStr e), Some d) \<Rightarrow> handleMessage e d s
                     | _ \<Rightarrow> s)))"

text \<open>The four closures of \<^verbatim>\<open>setupEventHandlers\<close>, and the reconnect timer's callback.\<close>

definition ws_onopen :: "real \<Rightarrow> Sockeon \<Rightarrow> Sockeon" where
  "ws_onopen now s = handleConnect now (s\<lparr>lastPongTime := now\<rparr>)"

definition ws_onmessage :: "real \<Rightarrow> frame \<Rightarrow> Sockeon \<Rightarrow> Sockeon" where
  "ws_onmessage now fr s = transport_handleMessage now fr s"

definition ws_onclose :: "real \<Rightarrow> string \<Rightarrow> Sockeon \<Rightarrow> Sockeon" where
  "ws_onclose code reason s = handleDisconnect code reason (stopHeartbeat s)"

definition ws_onerror :: "real \<Rightarrow> Sockeon \<Rightarrow> Sockeon" where
  "ws_onerror now s = handleError now ''WebSocket error occurred'' s"

definition reconnect_timer_fired :: "real \<Rightarrow> Sockeon \<Rightarrow> error option \<times> Sockeon" where
  "reconnect_timer_fired now s = transport_connect now s"

section \<open>Sockeon: public methods\<close>

definition connect :: "real \<Rightarrow> Sockeon \<Rightarrow> error option \<times> Sockeon" where
  "connect now s =
     (if state s = Connected \<or> state s = Connecting then (None, s)
      else transport_connect now (s\<lparr>manualDisconnect := False, state := Connecting\<rparr>))"


text \<open>The regular expression \<^verbatim>\<open>/^[a-zA-Z0-9._-]+$/\<close>: one or more characters of the class.\<close>

definition eventNameChar :: "char \<Rightarrow> bool" where
  "eventNameChar c \<longleftrightarrow>
     c \<in> set (''abcdefghijklmnopqrstuvwxyz'' @ ''ABCDEFGHIJKLMNOPQRSTUVWXYZ''
               @ ''0123456789'' @ ''._-'')"

definition eventNameTest :: "string \<Rightarrow> bool" where
  "eventNameTest event \<longleftrightarrow> event \<noteq> [] \<and> list_all eventNameChar event"

text \<open>The three errors of \<^verbatim>\<open>emit\<close>, under the names the specification gives them.\<close>

definition NotConnected :: error where
  "NotConnected = Error ''Cannot emit: WebSocket is not connected''"

definition InvalidEventName :: error where
  "InvalidEventName =
     Error (''Invalid event name: only alphanumeric characters, dots, ''
            @ ''underscores, and hyphens are allowed'')"

definition InvalidPayloadShape :: error where
  "InvalidPayloadShape = Error ''Data must be an object or array''"

text \<open>\<^verbatim>\<open>emit(event, data = {})\<close>: an omitted argument is \<open>None\<close> and takes the default.\<close>

definition emit :: "string \<Rightarrow> json option \<Rightarrow> Sockeon \<Rightarrow> error option \<times> Sockeon" where
  "emit event data0 s =
     (let data = (case data0 of None \<Rightarrow> JObj [] | Some v \<Rightarrow> v)
      in if state s \<noteq> Connected then (Some NotConnected, s)
         else if \<not> eventNameTest event then (Some InvalidEventName, s)
         else if typeof data \<noteq> ''object'' \<or> data = JNull then (Some InvalidPayloadShape, s)
         else transport_send (JObj [(''event'', JStr event), (''data'', data)]) s)"

text \<open>
  \<^verbatim>\<open>rooms\<close> is a JavaScript \<^verbatim>\<open>Set\<close>: a list without repetition, in insertion order.
\<close>

definition Set_add :: "'a \<Rightarrow> 'a list \<Rightarrow> 'a list" where
  "Set_add x xs = (if x \<in> set xs then xs else xs @ [x])"

definition Set_delete :: "'a \<Rightarrow> 'a list \<Rightarrow> 'a list" where
  "Set_delete x xs = removeAll x xs"

definition joinRoom :: "string \<Rightarrow> Sockeon \<Rightarrow> error option \<times> Sockeon" where
  "joinRoom room s =
     (if state s \<noteq> Connected then (Some (Error ''Cannot join room: not connected''), s)
      else emit ''join_room''
             (Some (JObj [(''room'', JStr room), (''namespace'', JStr (namespace (options s)))]))
             (s\<lparr>rooms := Set_add room (rooms s)\<rparr>))"

definition leaveRoom :: "string \<Rightarrow> Sockeon \<Rightarrow> error option \<times> Sockeon" where
  "leaveRoom room s =
     (if state s \<noteq> Connected then (Some (Error ''Cannot leave room: not connected''), s)
      else emit ''leave_room''
             (Some (JObj [(''room'', JStr room), (''namespace'', JStr (namespace (options s)))]))
             (s\<lparr>rooms := Set_delete room (rooms s)\<rparr>))"

definition getRooms :: "Sockeon \<Rightarrow> string list" where
  "getRooms s = rooms s"

definition getState :: "Sockeon \<Rightarrow> ConnectionState" where
  "getState s = state s"

definition isConnected :: "Sockeon \<Rightarrow> bool" where
  "isConnected s \<longleftrightarrow> state s = Connected"

section \<open>EventEmitter\<close>







section \<open>The browser's side\<close>

text \<open>
  The browser changes the \<^verbatim>\<open>readyState\<close> of a socket before it fires the socket's
  event. \<open>socket_opened\<close> and \<open>socket_closed\<close> are these two steps for the socket that the
  transport refers to.
\<close>

definition browser_readyState :: "ReadyState \<Rightarrow> Sockeon \<Rightarrow> Sockeon" where
  "browser_readyState rs s = s\<lparr>ws := map_option (\<lambda>_. rs) (ws s)\<rparr>"

definition socket_opened :: "real \<Rightarrow> Sockeon \<Rightarrow> Sockeon" where
  "socket_opened now s = ws_onopen now (browser_readyState WS_OPEN s)"

definition socket_closed :: "real \<Rightarrow> string \<Rightarrow> Sockeon \<Rightarrow> Sockeon" where
  "socket_closed code reason s = ws_onclose code reason (browser_readyState WS_CLOSED s)"

text \<open>
  \<open>n\<close> consecutive unexpected closes: the first close happens to the client as it is;
  before every later one the pending reconnect timer fires and the socket it opens
  closes again, with no successful connection in between.
\<close>

fun consecutive_closes :: "real \<Rightarrow> string \<Rightarrow> real \<Rightarrow> nat \<Rightarrow> Sockeon \<Rightarrow> Sockeon" where
  "consecutive_closes code reason now 0 s = s"
| "consecutive_closes code reason now (Suc 0) s = socket_closed code reason s"
| "consecutive_closes code reason now (Suc (Suc n)) s =
     socket_closed code reason
       (snd (reconnect_timer_fired now (consecutive_closes code reason now (Suc n) s)))"

text \<open>
  The delays of the timeouts set in a trace, the events emitted in a trace, and the
  effects between two states.
\<close>

fun timeouts :: "effect list \<Rightarrow> number list" where
  "timeouts [] = []"
| "timeouts (SetTimeout d # es) = d # timeouts es"
| "timeouts (_ # es) = timeouts es"

fun emitted :: "effect list \<Rightarrow> (string \<times> json) list" where
  "emitted [] = []"
| "emitted (Emit event data # es) = (event, data) # emitted es"
| "emitted (_ # es) = emitted es"

definition emitted_named :: "string \<Rightarrow> effect list \<Rightarrow> json list" where
  "emitted_named name es = map snd (filter (\<lambda>ev. fst ev = name) (emitted es))"


definition since :: "Sockeon \<Rightarrow> Sockeon \<Rightarrow> effect list" where
  "since s s' = drop (length (trace s)) (trace s')"

text \<open>A client with the given options that has connected at time \<open>now\<close>.\<close>

definition connected_client :: "NormalizedSockeonOptions \<Rightarrow> real \<Rightarrow> Sockeon" where
  "connected_client opts now = socket_opened now (snd (connect now (new_Sockeon opts)))"

section \<open>Facts about traces and the primitive operations\<close>

text \<open>
  Each operation is a record update; an effect that depends on a condition is a
  conditional suffix of the trace.
\<close>

lemma timeouts_append [simp]: "timeouts (xs @ ys) = timeouts xs @ timeouts ys"
  by (induction xs rule: timeouts.induct) simp_all

lemma emitted_append [simp]: "emitted (xs @ ys) = emitted xs @ emitted ys"
  by (induction xs rule: emitted.induct) simp_all

lemma emitted_named_append [simp]:
  "emitted_named name (xs @ ys) = emitted_named name xs @ emitted_named name ys"
  by (simp add: emitted_named_def)

lemma since_append [simp]: "trace s' = trace s @ xs \<Longrightarrow> since s s' = xs"
  by (simp add: since_def)

lemma clearReconnectTimer_eq:
  "clearReconnectTimer s =
     s\<lparr>reconnectTimer := None,
       trace := trace s @ (if reconnectTimer s = None then [] else [ClearTimeout])\<rparr>"
  by (simp add: clearReconnectTimer_def out_def)

lemma clearHeartbeatTimer_eq:
  "clearHeartbeatTimer s =
     s\<lparr>heartbeatTimer := None,
       trace := trace s @ (if heartbeatTimer s = None then [] else [ClearInterval])\<rparr>"
  by (simp add: clearHeartbeatTimer_def out_def)

lemma stopHeartbeat_eq:
  "stopHeartbeat s =
     s\<lparr>pingInterval := None, pongTimeout := None,
       trace := trace s @ (if pingInterval s = None then [] else [PingClearInterval])
                        @ (if pongTimeout s = None then [] else [PongClearTimeout])\<rparr>"
  by (cases s) (auto simp add: stopHeartbeat_def out_def Let_def)

lemma transport_disconnect_eq:
  "transport_disconnect code reason s =
     s\<lparr>ws := None, pingInterval := None, pongTimeout := None,
       trace := trace s @ (if pingInterval s = None then [] else [PingClearInterval])
                        @ (if pongTimeout s = None then [] else [PongClearTimeout])
                        @ (if ws s = Some WS_OPEN \<or> ws s = Some WS_CONNECTING
                           then [WsClose code reason] else [])\<rparr>"
  by (cases s)
     (auto simp add: transport_disconnect_def stopHeartbeat_eq out_def Let_def
           split: option.splits)

lemma transport_connect_keeps:
  "state (snd (transport_connect now s)) = state s"
  "manualDisconnect (snd (transport_connect now s)) = manualDisconnect s"
  "options (snd (transport_connect now s)) = options s"
  "reconnectAttempts (snd (transport_connect now s)) = reconnectAttempts s"
  "timeouts (trace (snd (transport_connect now s))) = timeouts (trace s)"
  "emitted_named ''reconnect_failed'' (trace (snd (transport_connect now s)))
     = emitted_named ''reconnect_failed'' (trace s)"
  by (simp_all add: transport_connect_def handleError_def out_def emitted_named_def
        split: option.splits)

lemma handleDisconnect_eq:
  "handleDisconnect code reason s =
     (let d = s\<lparr>state := Disconnected, heartbeatTimer := None, connectedAt := None, rooms := [],
                trace := trace s
                  @ (if heartbeatTimer s = None then [] else [ClearInterval])
                  @ (if state s = Connected
                     then [Emit ''disconnect''
                             (JObj [(''code'', JNum code), (''reason'', JStr reason)])]
                     else [])\<rparr>
      in if \<not> manualDisconnect s \<and> enabled (reconnect (options s))
         then scheduleReconnect d else d)"
  by (cases s) (simp add: handleDisconnect_def clearHeartbeatTimer_eq out_def Let_def)


lemma connected_client_eq:
  "urlError opts = None \<Longrightarrow> wsError opts = None \<Longrightarrow>
   connected_client opts now =
     \<lparr>options = opts, state = Connected, reconnectAttempts = 0,
      reconnectTimer = None,
      heartbeatTimer = (if hb_enabled (heartbeat opts) then Some (interval (heartbeat opts))
                        else None),
      connectedAt = Some now, rooms = [],
      manualDisconnect = False, ws = Some WS_OPEN, pingInterval = None, pongTimeout = None,
      lastPongTime = now,
      trace = [NewWebSocket]
        @ (if hb_enabled (heartbeat opts) then [SetInterval (interval (heartbeat opts))] else [])
        @ [Emit ''connect'' (JObj [(''namespace'', JStr (namespace opts)),
                                   (''timestamp'', JNum now)])]\<rparr>"
  by (simp add: connected_client_def socket_opened_def browser_readyState_def new_Sockeon_def
        ws_onopen_def handleConnect_def connect_def transport_connect_def startHeartbeat_def
        clearReconnectTimer_eq clearHeartbeatTimer_eq out_def Let_def)

lemma connected_client_default:
  "connected_client default_options 0 =
     \<lparr>options = default_options, state = Connected, reconnectAttempts = 0,
      reconnectTimer = None, heartbeatTimer = Some 30000, connectedAt = Some 0, rooms = [],
      manualDisconnect = False, ws = Some WS_OPEN, pingInterval = None, pongTimeout = None,
      lastPongTime = 0,
      trace = [NewWebSocket, SetInterval 30000,
               Emit ''connect'' (JObj [(''namespace'', JStr ''/''), (''timestamp'', JNum 0)])]\<rparr>"
  by (simp add: connected_client_eq default_options_def default_heartbeat_def)

lemma isValidMessage_iff:
  "isValidMessage m \<longleftrightarrow>
     (\<exists>kvs e d. m = JObj kvs \<and> map_of kvs ''event'' = Some (JStr e) \<and> e \<noteq> []
                \<and> map_of kvs ''data'' = Some d)"
  by (cases m)
     (auto simp add: isValidMessage_def truthy_def typeof_def getProp_def
           split: option.splits json.splits)

lemma socket_closed_attempt:
  assumes "\<not> manualDisconnect s" and "enabled (reconnect (options s))"
    and "\<not> (maxAttempts (reconnect (options s)) > 0
             \<and> real (reconnectAttempts s) \<ge> maxAttempts (reconnect (options s)))"
  shows "reconnectAttempts (socket_closed code reason s) = Suc (reconnectAttempts s)"
    and "\<not> manualDisconnect (socket_closed code reason s)"
    and "options (socket_closed code reason s) = options s"
    and "state (socket_closed code reason s) = Reconnecting"
    and "timeouts (trace (socket_closed code reason s)) =
           timeouts (trace s) @ [currentDelay (reconnect (options s)) (reconnectAttempts s)]"
    and "emitted_named ''reconnect_failed'' (trace (socket_closed code reason s)) =
           emitted_named ''reconnect_failed'' (trace s)"
  using assms
  by (auto simp add: socket_closed_def ws_onclose_def browser_readyState_def stopHeartbeat_eq
        handleDisconnect_eq scheduleReconnect_def out_def Let_def emitted_named_def)

lemma socket_closed_failed:
  assumes "\<not> manualDisconnect s" and "enabled (reconnect (options s))"
    and "maxAttempts (reconnect (options s)) > 0"
    and "real (reconnectAttempts s) \<ge> maxAttempts (reconnect (options s))"
  shows "reconnectAttempts (socket_closed code reason s) = reconnectAttempts s"
    and "state (socket_closed code reason s) = Disconnected"
    and "timeouts (trace (socket_closed code reason s)) = timeouts (trace s)"
    and "emitted_named ''reconnect_failed'' (trace (socket_closed code reason s)) =
           emitted_named ''reconnect_failed'' (trace s)
           @ [JObj [(''attempts'', JNum (real (reconnectAttempts s))),
                    (''maxAttempts'', JNum (maxAttempts (reconnect (options s))))]]"
  using assms
  by (auto simp add: socket_closed_def ws_onclose_def browser_readyState_def stopHeartbeat_eq
        handleDisconnect_eq scheduleReconnect_def out_def Let_def emitted_named_def)

lemma consecutive_closes_run:
  assumes "reconnectAttempts s = 0" and "\<not> manualDisconnect s"
    and "enabled (reconnect (options s))"
    and "maxAttempts (reconnect (options s)) \<le> 0 \<or> real n \<le> maxAttempts (reconnect (options s))"
  shows "reconnectAttempts (consecutive_closes code reason now n s) = n
     \<and> \<not> manualDisconnect (consecutive_closes code reason now n s)
     \<and> options (consecutive_closes code reason now n s) = options s
     \<and> (n > 0 \<longrightarrow> state (consecutive_closes code reason now n s) = Reconnecting)
     \<and> timeouts (trace (consecutive_closes code reason now n s)) =
         timeouts (trace s) @ map (currentDelay (reconnect (options s))) [0..<n]
     \<and> emitted_named ''reconnect_failed'' (trace (consecutive_closes code reason now n s)) =
         emitted_named ''reconnect_failed'' (trace s)"
  using assms
proof (induction code reason now n s rule: consecutive_closes.induct)
  case (1 code reason now s)
  then show ?case by simp
next
  case (2 code reason now s)
  then show ?case
    using socket_closed_attempt [of s code reason] by auto
next
  case (3 code reason now n s)
  let ?p = "consecutive_closes code reason now (Suc n) s"
  let ?t = "snd (reconnect_timer_fired now ?p)"
  have ih: "reconnectAttempts ?p = Suc n" "\<not> manualDisconnect ?p" "options ?p = options s"
    "timeouts (trace ?p) = timeouts (trace s) @ map (currentDelay (reconnect (options s))) [0..<Suc n]"
    "emitted_named ''reconnect_failed'' (trace ?p) = emitted_named ''reconnect_failed'' (trace s)"
    using 3 by auto
  have t: "reconnectAttempts ?t = Suc n" "\<not> manualDisconnect ?t" "options ?t = options s"
    "timeouts (trace ?t) = timeouts (trace s) @ map (currentDelay (reconnect (options s))) [0..<Suc n]"
    "emitted_named ''reconnect_failed'' (trace ?t) = emitted_named ''reconnect_failed'' (trace s)"
    using ih by (simp_all add: reconnect_timer_fired_def transport_connect_keeps)
  have lim: "\<not> (maxAttempts (reconnect (options ?t)) > 0
             \<and> real (reconnectAttempts ?t) \<ge> maxAttempts (reconnect (options ?t)))"
    using "3.prems"(4) t by auto
  have en: "enabled (reconnect (options ?t))"
    using "3.prems"(3) t by simp
  show ?case
    using socket_closed_attempt [OF t(2) en lim, of code reason] t
    by simp
qed

lemma emit_keeps:
  "state (snd (emit e d s)) = state s"
  "rooms (snd (emit e d s)) = rooms s"
  by (simp_all add: emit_def transport_send_def out_def Let_def)

lemma joinRoom_rooms:
  "state s = Connected \<Longrightarrow> rooms (snd (joinRoom r s)) = Set_add r (rooms s)"
  "state (snd (joinRoom r s)) = state s"
  by (simp_all add: joinRoom_def emit_keeps)

lemma leaveRoom_rooms:
  "state s = Connected \<Longrightarrow> rooms (snd (leaveRoom r s)) = Set_delete r (rooms s)"
  by (simp add: leaveRoom_def emit_keeps)

text \<open>Rounding to binary64.\<close>

lemma rne_of_int [simp]: "rne (of_int n) = n"
  by (simp add: rne_def)

lemma rne_mono: "x \<le> y \<Longrightarrow> rne x \<le> rne y"
proof -
  assume xy: "x \<le> y"
  have fg: "\<lfloor>x\<rfloor> \<le> \<lfloor>y\<rfloor>" using xy by (rule floor_mono)
  have bx: "rne x = \<lfloor>x\<rfloor> \<or> rne x = \<lfloor>x\<rfloor> + 1" by (auto simp add: rne_def Let_def)
  have lby: "\<lfloor>y\<rfloor> \<le> rne y" by (auto simp add: rne_def Let_def)
  show ?thesis
  proof (cases "\<lfloor>x\<rfloor> < \<lfloor>y\<rfloor>")
    case True
    then show ?thesis using bx lby by auto
  next
    case False
    then have eq: "\<lfloor>x\<rfloor> = \<lfloor>y\<rfloor>" using fg by simp
    then show ?thesis using xy by (auto simp add: rne_def Let_def)
  qed
qed

lemma rne_ge: "of_int n \<le> x \<Longrightarrow> n \<le> rne x"
  using rne_mono [of "of_int n" x] by simp


lemma exponent_ge: "- 1022 \<le> exponent r"
  by (simp add: exponent_def)


lemma exponent_lower: assumes "0 < r" and "- 1022 < exponent r" shows "2 powi (exponent r) \<le> r"
proof -
  have e: "exponent r = \<lfloor>log 2 r\<rfloor>" using assms by (simp add: exponent_def max_def split: if_splits)
  have "2 powr (of_int \<lfloor>log 2 r\<rfloor>) \<le> r"
    using floor_log_eq_powr_iff [of r 2 "\<lfloor>log 2 r\<rfloor>"] assms by simp
  then show ?thesis by (simp add: e powr_real_of_int')
qed


lemma powi_pos: "(0::real) < 2 powi e"
  by (simp add: zero_less_power_int)

lemma powi_split: "(2::real) powi (a + b) = 2 powi a * 2 powi b"
  by (simp add: power_int_add)




lemma fl64_pos:
  assumes "0 < r"
  shows "fl64 r = (let q = of_int (rne (r / 2 powi (exponent r - 52))) * 2 powi (exponent r - 52)
                   in if q \<ge> 2 ^ 1024 then PosInfinity else Num q)"
    and "0 \<le> (of_int (rne (r / 2 powi (exponent r - 52))) * 2 powi (exponent r - 52) :: real)"
proof -
  let ?u = "(2::real) powi (exponent r - 52)"
  have u: "0 < ?u" by (rule powi_pos)
  have "of_int 0 \<le> r / ?u" using assms u by simp
  then have "0 \<le> rne (r / ?u)" by (rule rne_ge)
  then show q: "0 \<le> (of_int (rne (r / ?u)) * ?u :: real)" using u by simp
  have "\<not> of_int (rne (r / ?u)) * ?u \<le> - (2 ^ 1024 :: real)"
    using q by (simp add: not_le)
  then show "fl64 r = (let q = of_int (rne (r / ?u)) * ?u
                   in if q \<ge> 2 ^ 1024 then PosInfinity else Num q)"
    using assms by (simp add: fl64_def Let_def)
qed





lemma fl64_dyadic:
  fixes m :: int and j :: nat
  assumes "0 < m" and "m < 2 ^ 53" and "j \<le> 1074"
  shows "fl64 (of_int m / 2 ^ j) = Num (of_int m / 2 ^ j)"
proof -
  define r :: real where "r = of_int m / 2 ^ j"
  define e where "e = exponent r"
  define u :: real where "u = 2 powi (e - 52)"
  define k where "k = 52 - e - int j"
  have r: "0 < r" using assms(1) by (simp add: r_def)
  have u: "0 < u" unfolding u_def by (rule powi_pos)
  have rj: "r = of_int m * 2 powi (- int j)"
    by (simp add: r_def power_int_minus field_simps)
  have k0: "0 \<le> k"
  proof (cases "- 1022 < e")
    case True
    then have "2 powi e \<le> r" using r unfolding e_def by (intro exponent_lower) simp_all
    moreover have "r < 2 powi (53 - int j)"
    proof -
      have "of_int m < (2 ^ 53 :: real)" using assms(2) by (metis of_int_less_iff of_int_numeral of_int_power)
      then have "of_int m * 2 powi (- int j) < (2 ^ 53 :: real) * 2 powi (- int j)"
        using powi_pos [of "- int j"] by (intro mult_strict_right_mono) simp_all
      also have "\<dots> = 2 powi 53 * 2 powi (- int j)" by simp
      also have "\<dots> = 2 powi (53 + (- int j))"
        by (rule powi_split [symmetric])
      also have "53 + (- int j) = 53 - int j" by simp
      finally show ?thesis by (simp add: rj)
    qed
    ultimately have lt: "(2::real) powi e < 2 powi (53 - int j)" by simp
    have "e < 53 - int j"
    proof (rule ccontr)
      assume "\<not> e < 53 - int j"
      then have "(2::real) powi (53 - int j) \<le> 2 powi e"
        by (intro power_int_increasing) simp_all
      then show False using lt by simp
    qed
    then show ?thesis by (simp add: k_def)
  next
    case False
    then have "e = - 1022" using exponent_ge [of r] by (simp add: e_def)
    then show ?thesis using assms(3) by (simp add: k_def)
  qed
  have "(2::real) powi k * u = 2 powi (k + (e - 52))"
    unfolding u_def by (rule powi_split [symmetric])
  also have "k + (e - 52) = - int j" by (simp add: k_def)
  finally have ku: "(2::real) powi k * u = 2 powi (- int j)" .
  have pk: "(2::real) powi k = of_int (2 ^ nat k)"
    using k0 by (simp add: power_int_def)
  have "of_int (m * 2 ^ nat k) * u = of_int m * ((2::real) powi k * u)"
    by (simp add: pk)
  also have "\<dots> = r" by (simp add: ku rj)
  finally have q: "of_int (m * 2 ^ nat k) * u = r" .
  then have ru: "r / u = of_int (m * 2 ^ nat k)" using u by (simp add: field_simps)
  have rn: "rne (r / u) = m * 2 ^ nat k" unfolding ru by (rule rne_of_int)
  have "of_int (rne (r / u)) * u = r" unfolding rn by (rule q)
  moreover have "r < 2 ^ 1024"
  proof -
    have "r \<le> of_int m" using assms(1) by (simp add: r_def field_simps mult_le_cancel_left1)
    also have "\<dots> < (2 ^ 53 :: real)" using assms(2) by (metis of_int_less_iff of_int_numeral of_int_power)
    also have "\<dots> \<le> 2 ^ 1024" by simp
    finally show ?thesis .
  qed
  ultimately show ?thesis
    using fl64_pos(1) [OF r] by (simp add: Let_def u_def e_def r_def)
qed

lemma fl64_0 [simp]: "fl64 0 = Num 0"
  by (simp add: fl64_def)









lemma currentDelay_exact:
  fixes m m' :: int and j j' :: nat
  assumes "factor cfg ^ k = of_int m / 2 ^ j" and "0 < m" and "m < 2 ^ 53" and "j \<le> 1074"
    and "delay cfg * (of_int m / 2 ^ j) = of_int m' / 2 ^ j'"
    and "0 < m'" and "m' < 2 ^ 53" and "j' \<le> 1074"
  shows "currentDelay cfg k = Num (min (delay cfg * factor cfg ^ k) (maxDelay cfg))"
proof -
  have p: "number_pow (factor cfg) k = Num (of_int m / 2 ^ j)"
    unfolding number_pow_def assms(1) using assms(2-4) by (rule fl64_dyadic)
  have "fl64 (of_int m' / 2 ^ j') = Num (of_int m' / 2 ^ j')"
    using assms(6-8) by (rule fl64_dyadic)
  then have f: "fl64 (delay cfg * (of_int m / 2 ^ j)) = Num (delay cfg * (of_int m / 2 ^ j))"
    unfolding assms(5) [symmetric] .
  show ?thesis
    unfolding currentDelay_def p number_times_def number.case f Math_min_def assms(1) ..
qed

lemma currentDelay_default:
  assumes "delay cfg = 1000" and "factor cfg = 3 / 2" and "maxDelay cfg = 30000"
  shows "currentDelay cfg 0 = Num 1000"
    and "currentDelay cfg 1 = Num 1500"
    and "currentDelay cfg 2 = Num 2250"
    and "currentDelay cfg 3 = Num 3375"
    and "currentDelay cfg 4 = Num 5062.5"
    and "currentDelay cfg 5 = Num 7593.75"
    and "currentDelay cfg 6 = Num 11390.625"
    and "currentDelay cfg 7 = Num 17085.9375"
    and "currentDelay cfg 8 = Num 25628.90625"
    and "currentDelay cfg 9 = Num 30000"
proof -
  show "currentDelay cfg 0 = Num 1000"
    using currentDelay_exact [of cfg 0 1 0 1000 0] assms by simp
  show "currentDelay cfg 1 = Num 1500"
    using currentDelay_exact [of cfg 1 3 1 1500 0] assms by simp
  show "currentDelay cfg 2 = Num 2250"
    using currentDelay_exact [of cfg 2 9 2 2250 0] assms by (simp add: power_divide)
  show "currentDelay cfg 3 = Num 3375"
    using currentDelay_exact [of cfg 3 27 3 3375 0] assms by (simp add: power_divide)
  show "currentDelay cfg 4 = Num 5062.5"
    using currentDelay_exact [of cfg 4 81 4 10125 1] assms by (simp add: power_divide)
  show "currentDelay cfg 5 = Num 7593.75"
    using currentDelay_exact [of cfg 5 243 5 30375 2] assms by (simp add: power_divide)
  show "currentDelay cfg 6 = Num 11390.625"
    using currentDelay_exact [of cfg 6 729 6 91125 3] assms by (simp add: power_divide)
  show "currentDelay cfg 7 = Num 17085.9375"
    using currentDelay_exact [of cfg 7 2187 7 273375 4] assms by (simp add: power_divide)
  show "currentDelay cfg 8 = Num 25628.90625"
    using currentDelay_exact [of cfg 8 6561 8 820125 5] assms by (simp add: power_divide)
  show "currentDelay cfg 9 = Num 30000"
    using currentDelay_exact [of cfg 9 19683 9 2460375 6] assms by (simp add: power_divide)
qed


lemma upt_3: "[0..<3] = [0, 1, 2 :: nat]"
  by code_simp


lemma handleDisconnect_result:
  "let cfg = reconnect (options s);
       limit = (maxAttempts cfg > 0 \<and> real (reconnectAttempts s) \<ge> maxAttempts cfg);
       sched = (\<not> manualDisconnect s \<and> enabled cfg \<and> \<not> limit);
       r = handleDisconnect code reason s
   in heartbeatTimer r = None
      \<and> (ClearInterval \<in> set (since s r) \<longleftrightarrow> heartbeatTimer s \<noteq> None)
      \<and> rooms r = [] \<and> connectedAt r = None
      \<and> emitted_named ''disconnect'' (since s r)
          = (if state s = Connected
             then [JObj [(''code'', JNum code), (''reason'', JStr reason)]] else [])
      \<and> state r = (if sched then Reconnecting else Disconnected)
      \<and> timeouts (since s r) = (if sched then [currentDelay cfg (reconnectAttempts s)] else [])
      \<and> reconnectTimer r
          = (if sched then Some (currentDelay cfg (reconnectAttempts s)) else reconnectTimer s)
      \<and> reconnectAttempts r
          = (if sched then Suc (reconnectAttempts s) else reconnectAttempts s)
      \<and> emitted_named ''reconnect_failed'' (since s r)
          = (if \<not> manualDisconnect s \<and> enabled cfg \<and> limit
             then [JObj [(''attempts'', JNum (real (reconnectAttempts s))),
                         (''maxAttempts'', JNum (maxAttempts cfg))]]
             else [])"
  by (cases s)
     (auto simp add: handleDisconnect_eq scheduleReconnect_def out_def Let_def since_def
        emitted_named_def)

section \<open>C1: heartbeat timeout\<close>

text \<open>
  C1. The claim: while connected with the heartbeat enabled, a heartbeat tick that finds
  no liveness signal for longer than \<open>timeout\<close> force-closes the transport. The code at
  the default policy (interval 30000, timeout 5000): a client connected at time 0 has
  its heartbeat timer running; at the first tick, 30000 ms after the last liveness signal,
  the callback installed by \<^verbatim>\<open>Sockeon.startHeartbeat\<close> leaves the client as it is: nothing
  is closed and the state stays \<open>Connected\<close>. The callback never reads the clock or the
  timeout. The callback of \<^verbatim>\<open>WebSocketTransport.startHeartbeat\<close>, which no code
  installs, would have closed the socket with code 1000 and reason \<^verbatim>\<open>Heartbeat timeout\<close>.
\<close>

theorem heartbeat_tick_ignores_timeout:
  "state (connected_client default_options 0) = Connected
   \<and> heartbeat (options (connected_client default_options 0))
        = \<lparr>hb_enabled = True, interval = 30000, timeout = 5000\<rparr>
   \<and> heartbeatTimer (connected_client default_options 0) = Some 30000
   \<and> 30000 - lastPongTime (connected_client default_options 0) > 5000
   \<and> heartbeat_tick (connected_client default_options 0) = connected_client default_options 0
   \<and> since (connected_client default_options 0)
        (transport_heartbeat_tick 5000 30000 (connected_client default_options 0))
      = [WsClose 1000 ''Heartbeat timeout'']"
  by (simp add: connected_client_default heartbeat_tick_def sendPing_def
        transport_heartbeat_tick_def transport_disconnect_eq)
     (simp add: default_options_def default_heartbeat_def)

section \<open>C2: reconnect delays\<close>




section \<open>C3: the attempt limit\<close>

text \<open>
  C3, as stated, fails: with \<open>maxAttempts = 3\<close>, after the third consecutive unexpected
  close of a connected client no \<^verbatim>\<open>reconnect_failed\<close> has been emitted; the third close
  schedules the third reconnect attempt (delay 2250) and leaves the state \<open>Reconnecting\<close>.
\<close>

theorem third_close_schedules_third_attempt:
  "maxAttempts (reconnect (default_options\<lparr>reconnect := default_reconnect\<lparr>maxAttempts := 3\<rparr>\<rparr>)) = 3
   \<and> enabled (reconnect (default_options\<lparr>reconnect := default_reconnect\<lparr>maxAttempts := 3\<rparr>\<rparr>))
   \<and> emitted_named ''reconnect_failed''
        (trace (consecutive_closes 1006 [] 0 3
           (connected_client (default_options\<lparr>reconnect := default_reconnect\<lparr>maxAttempts := 3\<rparr>\<rparr>) 0)))
       = []
   \<and> timeouts (trace (consecutive_closes 1006 [] 0 3
           (connected_client (default_options\<lparr>reconnect := default_reconnect\<lparr>maxAttempts := 3\<rparr>\<rparr>) 0)))
       = [Num 1000, Num 1500, Num 2250]
   \<and> state (consecutive_closes 1006 [] 0 3
           (connected_client (default_options\<lparr>reconnect := default_reconnect\<lparr>maxAttempts := 3\<rparr>\<rparr>) 0))
       = Reconnecting"
proof -
  let ?cfg = "default_reconnect\<lparr>maxAttempts := 3\<rparr>"
  have v: "delay ?cfg = 1000" "factor ?cfg = 3 / 2" "maxDelay ?cfg = 30000"
    by (simp_all add: default_reconnect_def)
  note d = currentDelay_default(1-3) [OF v]
  show ?thesis
    using consecutive_closes_run [of
      "connected_client (default_options\<lparr>reconnect := ?cfg\<rparr>) 0" 3 1006 "[]" 0] d
    by (simp add: connected_client_eq default_options_def default_heartbeat_def upt_3
          emitted_named_def)
       (simp add: default_reconnect_def)
qed

text \<open>
  C3, amended. With reconnect enabled, no manual disconnect and the attempt counter at 0:
  if \<open>maxAttempts = 3\<close>, each of the first three consecutive unexpected closes schedules a
  reconnect attempt and none emits \<^verbatim>\<open>reconnect_failed\<close>; the fourth consecutive close
  (the failure of the third attempt) emits \<^verbatim>\<open>reconnect_failed\<close> with attempts 3 and
  maxAttempts 3, sets no further timer and leaves the state \<open>Disconnected\<close>. If
  \<open>maxAttempts = 0\<close>, every one of \<open>n\<close> consecutive closes schedules an attempt and
  \<^verbatim>\<open>reconnect_failed\<close> is never emitted.
\<close>

theorem reconnect_failed_after_three_attempts:
  assumes "enabled (reconnect (options s))" and "\<not> manualDisconnect s"
    and "reconnectAttempts s = 0"
  shows "(maxAttempts (reconnect (options s)) = 3 \<longrightarrow>
            state (consecutive_closes code reason now 3 s) = Reconnecting
          \<and> reconnectAttempts (consecutive_closes code reason now 3 s) = 3
          \<and> length (timeouts (trace (consecutive_closes code reason now 3 s)))
              = length (timeouts (trace s)) + 3
          \<and> emitted_named ''reconnect_failed'' (trace (consecutive_closes code reason now 3 s))
              = emitted_named ''reconnect_failed'' (trace s)
          \<and> emitted_named ''reconnect_failed'' (trace (consecutive_closes code reason now 4 s))
              = emitted_named ''reconnect_failed'' (trace s)
                @ [JObj [(''attempts'', JNum 3), (''maxAttempts'', JNum 3)]]
          \<and> timeouts (trace (consecutive_closes code reason now 4 s))
              = timeouts (trace (consecutive_closes code reason now 3 s))
          \<and> state (consecutive_closes code reason now 4 s) = Disconnected)
     \<and> (maxAttempts (reconnect (options s)) = 0 \<longrightarrow>
            emitted_named ''reconnect_failed'' (trace (consecutive_closes code reason now n s))
              = emitted_named ''reconnect_failed'' (trace s)
          \<and> length (timeouts (trace (consecutive_closes code reason now n s)))
              = length (timeouts (trace s)) + n)"
proof (intro conjI impI)
  assume m: "maxAttempts (reconnect (options s)) = 3"
  let ?p = "consecutive_closes code reason now 3 s"
  let ?t = "snd (reconnect_timer_fired now ?p)"
  have p: "reconnectAttempts ?p = 3" "\<not> manualDisconnect ?p" "options ?p = options s"
    "state ?p = Reconnecting"
    "timeouts (trace ?p) = timeouts (trace s) @ map (currentDelay (reconnect (options s))) [0..<3]"
    "emitted_named ''reconnect_failed'' (trace ?p) = emitted_named ''reconnect_failed'' (trace s)"
    using consecutive_closes_run [of s 3 code reason now] assms m by simp_all
  have t: "reconnectAttempts ?t = 3" "\<not> manualDisconnect ?t" "options ?t = options s"
    "timeouts (trace ?t) = timeouts (trace ?p)"
    "emitted_named ''reconnect_failed'' (trace ?t) = emitted_named ''reconnect_failed'' (trace s)"
    using p by (simp_all add: reconnect_timer_fired_def transport_connect_keeps)
  have four: "consecutive_closes code reason now 4 s = socket_closed code reason ?t"
    by (simp add: numeral_eq_Suc)
  have f: "state (socket_closed code reason ?t) = Disconnected"
    "timeouts (trace (socket_closed code reason ?t)) = timeouts (trace ?t)"
    "emitted_named ''reconnect_failed'' (trace (socket_closed code reason ?t)) =
       emitted_named ''reconnect_failed'' (trace ?t)
       @ [JObj [(''attempts'', JNum (real (reconnectAttempts ?t))),
                (''maxAttempts'', JNum (maxAttempts (reconnect (options ?t))))]]"
    using socket_closed_failed [of ?t code reason] t assms(1) m by simp_all
  show "state ?p = Reconnecting" by (rule p)
  show "reconnectAttempts ?p = 3" by (rule p)
  show "length (timeouts (trace ?p)) = length (timeouts (trace s)) + 3" by (simp add: p)
  show "emitted_named ''reconnect_failed'' (trace ?p)
          = emitted_named ''reconnect_failed'' (trace s)" by (rule p)
  show "emitted_named ''reconnect_failed'' (trace (consecutive_closes code reason now 4 s))
          = emitted_named ''reconnect_failed'' (trace s)
            @ [JObj [(''attempts'', JNum 3), (''maxAttempts'', JNum 3)]]"
    unfolding four using f(3) t m by simp
  show "timeouts (trace (consecutive_closes code reason now 4 s)) = timeouts (trace ?p)"
    unfolding four using f(2) t by simp
  show "state (consecutive_closes code reason now 4 s) = Disconnected"
    unfolding four by (rule f)
next
  assume m: "maxAttempts (reconnect (options s)) = 0"
  show "emitted_named ''reconnect_failed'' (trace (consecutive_closes code reason now n s))
          = emitted_named ''reconnect_failed'' (trace s)"
    using consecutive_closes_run [of s n code reason now] assms m by simp
  show "length (timeouts (trace (consecutive_closes code reason now n s)))
          = length (timeouts (trace s)) + n"
    using consecutive_closes_run [of s n code reason now] assms m by simp
qed

text \<open>
  C3, amended, at a connected client with the default policy and \<open>maxAttempts = 3\<close> (four
  closes), and with \<open>maxAttempts = 0\<close> (seven closes).
\<close>

theorem reconnect_failed_after_three_attempts_witness:
  "enabled (reconnect (options
      (connected_client (default_options\<lparr>reconnect := default_reconnect\<lparr>maxAttempts := 3\<rparr>\<rparr>) 0)))
   \<and> \<not> manualDisconnect
      (connected_client (default_options\<lparr>reconnect := default_reconnect\<lparr>maxAttempts := 3\<rparr>\<rparr>) 0)
   \<and> reconnectAttempts
      (connected_client (default_options\<lparr>reconnect := default_reconnect\<lparr>maxAttempts := 3\<rparr>\<rparr>) 0) = 0
   \<and> maxAttempts (reconnect (options
      (connected_client (default_options\<lparr>reconnect := default_reconnect\<lparr>maxAttempts := 3\<rparr>\<rparr>) 0))) = 3
   \<and> emitted_named ''reconnect_failed'' (trace (consecutive_closes 1006 [] 0 4
        (connected_client (default_options\<lparr>reconnect := default_reconnect\<lparr>maxAttempts := 3\<rparr>\<rparr>) 0)))
      = [JObj [(''attempts'', JNum 3), (''maxAttempts'', JNum 3)]]
   \<and> state (consecutive_closes 1006 [] 0 4
        (connected_client (default_options\<lparr>reconnect := default_reconnect\<lparr>maxAttempts := 3\<rparr>\<rparr>) 0))
      = Disconnected
   \<and> maxAttempts (reconnect (options
      (connected_client (default_options\<lparr>reconnect := default_reconnect\<lparr>maxAttempts := 0\<rparr>\<rparr>) 0))) = 0
   \<and> emitted_named ''reconnect_failed'' (trace (consecutive_closes 1006 [] 0 7
        (connected_client (default_options\<lparr>reconnect := default_reconnect\<lparr>maxAttempts := 0\<rparr>\<rparr>) 0)))
      = []
   \<and> length (timeouts (trace (consecutive_closes 1006 [] 0 7
        (connected_client (default_options\<lparr>reconnect := default_reconnect\<lparr>maxAttempts := 0\<rparr>\<rparr>) 0))))
      = 7"
  using reconnect_failed_after_three_attempts [of
      "connected_client (default_options\<lparr>reconnect := default_reconnect\<lparr>maxAttempts := 3\<rparr>\<rparr>) 0"
      1006 "[]" 0 0]
    reconnect_failed_after_three_attempts [of
      "connected_client (default_options\<lparr>reconnect := default_reconnect\<lparr>maxAttempts := 0\<rparr>\<rparr>) 0"
      1006 "[]" 0 7]
  by (simp add: connected_client_eq default_options_def default_reconnect_def
        default_heartbeat_def emitted_named_def)

section \<open>C4: the closed event\<close>

text \<open>
  C4, as stated, fails. A client with the default options (\<open>maxAttempts = 5\<close>) whose
  fifth reconnect attempt has just been started is in the state \<open>Reconnecting\<close>, its
  manual-disconnect flag is unset and its reconnect policy is enabled; the closed event
  then sets no reconnect timer and leaves the state \<open>Disconnected\<close>.
\<close>

theorem closed_at_attempt_limit_sets_no_timer:
  "state (snd (reconnect_timer_fired 0
      (consecutive_closes 1006 [] 0 5 (connected_client default_options 0)))) = Reconnecting
   \<and> \<not> manualDisconnect (snd (reconnect_timer_fired 0
      (consecutive_closes 1006 [] 0 5 (connected_client default_options 0))))
   \<and> enabled (reconnect (options (snd (reconnect_timer_fired 0
      (consecutive_closes 1006 [] 0 5 (connected_client default_options 0))))))
   \<and> timeouts (since
        (snd (reconnect_timer_fired 0
           (consecutive_closes 1006 [] 0 5 (connected_client default_options 0))))
        (handleDisconnect 1006 []
           (snd (reconnect_timer_fired 0
              (consecutive_closes 1006 [] 0 5 (connected_client default_options 0)))))) = []
   \<and> state (handleDisconnect 1006 []
        (snd (reconnect_timer_fired 0
           (consecutive_closes 1006 [] 0 5 (connected_client default_options 0))))) = Disconnected"
proof -
  let ?s = "snd (reconnect_timer_fired 0
      (consecutive_closes 1006 [] 0 5 (connected_client default_options 0)))"
  have s: "state ?s = Reconnecting" "\<not> manualDisconnect ?s" "options ?s = default_options"
    "reconnectAttempts ?s = 5"
    using consecutive_closes_run [of "connected_client default_options 0" 5 1006 "[]" 0]
    by (simp_all add: reconnect_timer_fired_def transport_connect_keeps
          connected_client_default)
       (simp_all add: default_options_def default_reconnect_def)
  show ?thesis
    using handleDisconnect_result [of ?s 1006 "[]"] s
    by (simp add: Let_def default_options_def default_reconnect_def)
qed

text \<open>
  C4, amended. For every state among connecting, connected and reconnecting,
  \<open>handleDisconnect\<close> clears the heartbeat timer (calling \<^verbatim>\<open>clearInterval\<close> exactly when one
  was running), sets the state to \<open>Disconnected\<close>, empties the room set, sets \<open>connectedAt\<close>
  to null and emits \<^verbatim>\<open>disconnect\<close> with the code and reason exactly when the previous
  state was \<open>Connected\<close>; this is the client \<open>d\<close>, and when the manual-disconnect flag is
  unset and the reconnect policy is enabled, \<open>scheduleReconnect\<close> runs on it. A reconnect
  timer is set, with the delay of the current attempt counter, exactly when the flag is
  unset, the policy is enabled and the attempt limit is not reached; then the counter is
  incremented and the state ends as \<open>Reconnecting\<close>. Otherwise no timer is set and the state
  ends as \<open>Disconnected\<close>; \<^verbatim>\<open>reconnect_failed\<close> is emitted exactly when the flag is unset,
  the policy is enabled and the limit is reached.
\<close>

theorem handleDisconnect_closed:
  assumes "state s = Connecting \<or> state s = Connected \<or> state s = Reconnecting"
  shows "let cfg = reconnect (options s);
       limit = (maxAttempts cfg > 0 \<and> real (reconnectAttempts s) \<ge> maxAttempts cfg);
       sched = (\<not> manualDisconnect s \<and> enabled cfg \<and> \<not> limit);
       d = s\<lparr>heartbeatTimer := None, state := Disconnected, rooms := [], connectedAt := None,
              trace := trace s
                @ (if heartbeatTimer s = None then [] else [ClearInterval])
                @ (if state s = Connected
                   then [Emit ''disconnect''
                           (JObj [(''code'', JNum code), (''reason'', JStr reason)])]
                   else [])\<rparr>;
       r = handleDisconnect code reason s
   in r = (if \<not> manualDisconnect s \<and> enabled cfg then scheduleReconnect d else d)
      \<and> heartbeatTimer r = None
      \<and> (ClearInterval \<in> set (since s r) \<longleftrightarrow> heartbeatTimer s \<noteq> None)
      \<and> rooms r = [] \<and> connectedAt r = None
      \<and> emitted_named ''disconnect'' (since s r)
          = (if state s = Connected
             then [JObj [(''code'', JNum code), (''reason'', JStr reason)]] else [])
      \<and> state r = (if sched then Reconnecting else Disconnected)
      \<and> timeouts (since s r) = (if sched then [currentDelay cfg (reconnectAttempts s)] else [])
      \<and> reconnectTimer r
          = (if sched then Some (currentDelay cfg (reconnectAttempts s)) else reconnectTimer s)
      \<and> reconnectAttempts r
          = (if sched then Suc (reconnectAttempts s) else reconnectAttempts s)
      \<and> emitted_named ''reconnect_failed'' (since s r)
          = (if \<not> manualDisconnect s \<and> enabled cfg \<and> limit
             then [JObj [(''attempts'', JNum (real (reconnectAttempts s))),
                         (''maxAttempts'', JNum (maxAttempts cfg))]]
             else [])"
proof -
  have "handleDisconnect code reason s =
      (if \<not> manualDisconnect s \<and> enabled (reconnect (options s))
       then scheduleReconnect
         (s\<lparr>heartbeatTimer := None, state := Disconnected, rooms := [], connectedAt := None,
              trace := trace s
                @ (if heartbeatTimer s = None then [] else [ClearInterval])
                @ (if state s = Connected
                   then [Emit ''disconnect''
                           (JObj [(''code'', JNum code), (''reason'', JStr reason)])]
                   else [])\<rparr>)
       else s\<lparr>heartbeatTimer := None, state := Disconnected, rooms := [], connectedAt := None,
              trace := trace s
                @ (if heartbeatTimer s = None then [] else [ClearInterval])
                @ (if state s = Connected
                   then [Emit ''disconnect''
                           (JObj [(''code'', JNum code), (''reason'', JStr reason)])]
                   else [])\<rparr>)"
    by (cases s) (simp add: handleDisconnect_eq)
  then show ?thesis
    using handleDisconnect_result [of s code reason] unfolding Let_def by blast
qed

text \<open>
  C4, amended, at a connected client with the default options: \<^verbatim>\<open>disconnect\<close> is
  emitted once, a reconnect timer of 1000 is set and the state ends as \<open>Reconnecting\<close>.
\<close>

theorem handleDisconnect_closed_witness:
  "(state (connected_client default_options 0) = Connecting
     \<or> state (connected_client default_options 0) = Connected
     \<or> state (connected_client default_options 0) = Reconnecting)
   \<and> state (handleDisconnect 1006 [] (connected_client default_options 0)) = Reconnecting
   \<and> rooms (handleDisconnect 1006 [] (connected_client default_options 0)) = []
   \<and> emitted_named ''disconnect''
        (since (connected_client default_options 0)
           (handleDisconnect 1006 [] (connected_client default_options 0)))
       = [JObj [(''code'', JNum 1006), (''reason'', JStr [])]]
   \<and> timeouts
        (since (connected_client default_options 0)
           (handleDisconnect 1006 [] (connected_client default_options 0)))
       = [Num 1000]"
proof -
  have v: "delay default_reconnect = 1000" "factor default_reconnect = 3 / 2"
    "maxDelay default_reconnect = 30000"
    by (simp_all add: default_reconnect_def)
  have s: "state (connected_client default_options 0) = Connected"
    "\<not> manualDisconnect (connected_client default_options 0)"
    "reconnect (options (connected_client default_options 0)) = default_reconnect"
    "reconnectAttempts (connected_client default_options 0) = 0"
    by (simp_all add: connected_client_default) (simp add: default_options_def)
  show ?thesis
    using handleDisconnect_closed [of "connected_client default_options 0" 1006 "[]", unfolded Let_def,
        THEN conjunct2] s currentDelay_default(1) [OF v]
    by (simp add: default_reconnect_def)
qed

section \<open>C5: inbound shape validation\<close>

text \<open>
  C5. \<open>isValidMessage\<close> accepts a decoded value exactly when it is an object with a
  non-empty string \<^verbatim>\<open>event\<close> and a \<^verbatim>\<open>data\<close> key. An accepted message is passed on as
  one emitted event, with its \<^verbatim>\<open>event\<close> and \<^verbatim>\<open>data\<close>; a rejected one only adds an
  \<^verbatim>\<open>error\<close> event and changes nothing else, so the message is dropped and the
  connection stays as it is. The four examples of the specification are decided as it
  says.
\<close>

theorem inbound_shape_validation:
  "(isValidMessage m \<longleftrightarrow>
      (\<exists>kvs e d. m = JObj kvs \<and> map_of kvs ''event'' = Some (JStr e) \<and> e \<noteq> []
                 \<and> map_of kvs ''data'' = Some d))
   \<and> (isValidMessage m \<longrightarrow>
        (\<exists>e d. getProp ''event'' m = Some (JStr e) \<and> getProp ''data'' m = Some d
               \<and> ws_onmessage now (Text (Some m)) s = s\<lparr>trace := trace s @ [Emit e d]\<rparr>))
   \<and> (\<not> isValidMessage m \<longrightarrow>
        ws_onmessage now (Text (Some m)) s =
          s\<lparr>trace := trace s @
              [Emit ''error'' (JObj [(''message'', JStr ''Invalid message format''),
                                     (''timestamp'', JNum now)])]\<rparr>)
   \<and> isValidMessage (JObj [(''event'', JStr ''chat.send''), (''data'', JObj [])])
   \<and> \<not> isValidMessage (JObj [(''event'', JStr []), (''data'', JObj [])])
   \<and> \<not> isValidMessage (JObj [(''event'', JStr ''chat.send'')])
   \<and> \<not> isValidMessage (JObj [(''data'', JObj [])])"
proof -
  have valid: "isValidMessage m \<Longrightarrow>
        \<exists>e d. getProp ''event'' m = Some (JStr e) \<and> getProp ''data'' m = Some d
               \<and> ws_onmessage now (Text (Some m)) s = s\<lparr>trace := trace s @ [Emit e d]\<rparr>"
    by (auto simp add: isValidMessage_iff ws_onmessage_def transport_handleMessage_def
          getProp_def handleMessage_def out_def)
  have invalid: "\<not> isValidMessage m \<Longrightarrow>
        ws_onmessage now (Text (Some m)) s =
          s\<lparr>trace := trace s @
              [Emit ''error'' (JObj [(''message'', JStr ''Invalid message format''),
                                     (''timestamp'', JNum now)])]\<rparr>"
    by (simp add: ws_onmessage_def transport_handleMessage_def handleError_def out_def)
  have ex: "isValidMessage (JObj [(''event'', JStr ''chat.send''), (''data'', JObj [])])"
    "\<not> isValidMessage (JObj [(''event'', JStr []), (''data'', JObj [])])"
    "\<not> isValidMessage (JObj [(''event'', JStr ''chat.send'')])"
    "\<not> isValidMessage (JObj [(''data'', JObj [])])"
    by (simp_all add: isValidMessage_def truthy_def typeof_def getProp_def)
  show ?thesis
    using valid invalid ex isValidMessage_iff [of m] by blast
qed

text \<open>
  C5, at a connected client: an accepted and a rejected message.
\<close>

theorem inbound_shape_validation_witness:
  "isValidMessage (JObj [(''event'', JStr ''chat.send''), (''data'', JObj [])])
   \<and> since (connected_client default_options 0)
        (ws_onmessage 7 (Text (Some (JObj [(''event'', JStr ''chat.send''), (''data'', JObj [])])))
           (connected_client default_options 0))
     = [Emit ''chat.send'' (JObj [])]
   \<and> \<not> isValidMessage (JObj [(''event'', JStr ''chat.send'')])
   \<and> since (connected_client default_options 0)
        (ws_onmessage 7 (Text (Some (JObj [(''event'', JStr ''chat.send'')])))
           (connected_client default_options 0))
     = [Emit ''error'' (JObj [(''message'', JStr ''Invalid message format''),
                              (''timestamp'', JNum 7)])]
   \<and> state (ws_onmessage 7 (Text (Some (JObj [(''event'', JStr ''chat.send'')])))
           (connected_client default_options 0)) = Connected"
  using inbound_shape_validation [of "JObj [(''event'', JStr ''chat.send'')]" 7 "connected_client default_options 0"]
    inbound_shape_validation [of "JObj [(''event'', JStr ''chat.send''), (''data'', JObj [])]" 7
        "connected_client default_options 0"]
  by (simp add: connected_client_default getProp_def)

section \<open>C6: inbound event names\<close>




section \<open>C7: emit\<close>

text \<open>
  C7. \<open>emit\<close> fails with \<open>NotConnected\<close> in every state other than \<open>Connected\<close>, leaving
  the client unchanged; while connected it fails with \<open>InvalidEventName\<close> for an event
  that does not match the regular expression, and, for a matching event, with
  \<open>InvalidPayloadShape\<close> for data that is neither an object nor an array; when all three
  checks pass, the envelope of the event and the data is handed to the transport's
  \<^verbatim>\<open>send\<close> (with an empty object for omitted data).
\<close>

theorem emit_checks:
  "(state s \<noteq> Connected \<longrightarrow> emit event data s = (Some NotConnected, s))
 \<and> (state s = Connected \<and> \<not> eventNameTest event \<longrightarrow>
       emit event data s = (Some InvalidEventName, s))
 \<and> (state s = Connected \<and> eventNameTest event \<and> data = Some d
       \<and> (\<forall>kvs. d \<noteq> JObj kvs) \<and> (\<forall>vs. d \<noteq> JArr vs) \<longrightarrow>
       emit event data s = (Some InvalidPayloadShape, s))
 \<and> (state s = Connected \<and> eventNameTest event \<and> data = Some d
       \<and> ((\<exists>kvs. d = JObj kvs) \<or> (\<exists>vs. d = JArr vs)) \<longrightarrow>
       emit event data s = transport_send (JObj [(''event'', JStr event), (''data'', d)]) s)
 \<and> (state s = Connected \<and> eventNameTest event \<and> data = None \<longrightarrow>
       emit event data s
         = transport_send (JObj [(''event'', JStr event), (''data'', JObj [])]) s)
 \<and> \<not> eventNameTest ''a b'' \<and> eventNameTest ''chat.send''"
  by (cases d)
     (auto simp add: emit_def typeof_def Let_def eventNameTest_def eventNameChar_def)

text \<open>
  C7, at the examples of the specification.
\<close>

theorem emit_checks_witness:
  "emit ''a b'' (Some (JStr ''x'')) (connected_client default_options 0)
     = (Some InvalidEventName, connected_client default_options 0)
   \<and> emit ''chat.send'' (Some (JStr ''x'')) (connected_client default_options 0)
     = (Some InvalidPayloadShape, connected_client default_options 0)
   \<and> emit ''chat.send'' (Some JNull) (connected_client default_options 0)
     = (Some InvalidPayloadShape, connected_client default_options 0)
   \<and> emit ''chat.send'' (Some (JObj [])) (new_Sockeon default_options)
     = (Some NotConnected, new_Sockeon default_options)
   \<and> emit ''chat.send'' (Some (JObj [])) (connected_client default_options 0)
     = (None, (connected_client default_options 0)
          \<lparr>trace := trace (connected_client default_options 0)
             @ [WsSend (JObj [(''event'', JStr ''chat.send''), (''data'', JObj [])])]\<rparr>)"
  using emit_checks [of "connected_client default_options 0" "''a b''" "Some (JStr ''x'')" "JStr ''x''"]
    emit_checks [of "connected_client default_options 0" "''chat.send''" "Some (JStr ''x'')" "JStr ''x''"]
    emit_checks [of "connected_client default_options 0" "''chat.send''" "Some JNull" "JNull"]
    emit_checks [of "new_Sockeon default_options" "''chat.send''" "Some (JObj [])" "JObj []"]
    emit_checks [of "connected_client default_options 0" "''chat.send''" "Some (JObj [])" "JObj []"]
  unfolding connected_client_default
  by (simp add: new_Sockeon_def transport_send_def out_def)

section \<open>C8: connect\<close>

text \<open>
  C8, as stated, fails: in the state \<open>Reconnecting\<close> (a connected client after one
  unexpected close) \<open>connect\<close> is not a no-op; it moves the state to \<open>Connecting\<close> and opens a
  new socket.
\<close>

theorem connect_while_reconnecting:
  "state (socket_closed 1006 [] (connected_client default_options 0)) = Reconnecting
   \<and> connect 5 (socket_closed 1006 [] (connected_client default_options 0))
       \<noteq> (None, socket_closed 1006 [] (connected_client default_options 0))
   \<and> state (snd (connect 5 (socket_closed 1006 [] (connected_client default_options 0))))
       = Connecting
   \<and> since (socket_closed 1006 [] (connected_client default_options 0))
        (snd (connect 5 (socket_closed 1006 [] (connected_client default_options 0))))
       = [NewWebSocket]"
  unfolding connected_client_default
  by (simp add: socket_closed_def ws_onclose_def browser_readyState_def stopHeartbeat_eq
        handleDisconnect_eq scheduleReconnect_def connect_def
        transport_connect_def out_def since_def Let_def default_options_def
        default_reconnect_def)

text \<open>
  C8, amended. \<open>connect\<close> is a no-op in the states \<open>Connected\<close> and \<open>Connecting\<close>. In
  the states \<open>Disconnected\<close>, \<open>Closing\<close> and \<open>Reconnecting\<close> it clears the manual-disconnect
  flag, moves to \<open>Connecting\<close> and calls the transport's \<^verbatim>\<open>connect\<close>.
\<close>

theorem connect_accepted_states:
  "(state s = Connected \<or> state s = Connecting \<longrightarrow> connect now s = (None, s))
 \<and> (state s = Disconnected \<or> state s = Closing \<or> state s = Reconnecting \<longrightarrow>
      connect now s = transport_connect now (s\<lparr>manualDisconnect := False, state := Connecting\<rparr>)
      \<and> state (snd (connect now s)) = Connecting
      \<and> \<not> manualDisconnect (snd (connect now s)))"
  by (auto simp add: connect_def transport_connect_keeps)

text \<open>
  C8, amended, at a new client and at a connected client.
\<close>

theorem connect_accepted_states_witness:
  "state (new_Sockeon default_options) = Disconnected
   \<and> connect 0 (new_Sockeon default_options)
       = (None, (new_Sockeon default_options)
            \<lparr>state := Connecting, ws := Some WS_CONNECTING, trace := [NewWebSocket]\<rparr>)
   \<and> state (connected_client default_options 0) = Connected
   \<and> connect 9 (connected_client default_options 0) = (None, connected_client default_options 0)"
  using connect_accepted_states [of "new_Sockeon default_options" 0] connect_accepted_states [of "connected_client default_options 0" 9]
  unfolding connected_client_default
  by (simp add: new_Sockeon_def transport_connect_def out_def default_options_def)

section \<open>C9: rooms\<close>

text \<open>
  C9. While connected, for every room \<open>r\<close> and every starting room set: after
  \<open>joinRoom r\<close> and then \<open>leaveRoom r\<close> the room \<open>r\<close> is absent and the other rooms are as
  before (from the empty set, the set is empty); \<open>joinRoom r\<close> twice gives the same room
  set as \<open>joinRoom r\<close> once, the starting set with \<open>r\<close> added (from the empty set, exactly
  \<open>r\<close>). This holds whether or not the transport's \<^verbatim>\<open>send\<close> throws.
\<close>

theorem room_roundtrip:
  assumes "state s = Connected"
  shows "r \<notin> set (getRooms (snd (leaveRoom r (snd (joinRoom r s)))))
     \<and> set (getRooms (snd (leaveRoom r (snd (joinRoom r s))))) = set (getRooms s) - {r}
     \<and> (getRooms s = [] \<longrightarrow> getRooms (snd (leaveRoom r (snd (joinRoom r s)))) = [])
     \<and> getRooms (snd (joinRoom r (snd (joinRoom r s)))) = getRooms (snd (joinRoom r s))
     \<and> set (getRooms (snd (joinRoom r (snd (joinRoom r s))))) = insert r (set (getRooms s))
     \<and> (getRooms s = [] \<longrightarrow> getRooms (snd (joinRoom r (snd (joinRoom r s)))) = [r])"
  using assms
  by (auto simp add: getRooms_def joinRoom_rooms leaveRoom_rooms Set_add_def Set_delete_def)

text \<open>
  C9, at a connected client with no rooms and the room \<^verbatim>\<open>r1\<close>.
\<close>

theorem room_roundtrip_witness:
  "state (connected_client default_options 0) = Connected
   \<and> getRooms (connected_client default_options 0) = []
   \<and> getRooms (snd (leaveRoom ''r1'' (snd (joinRoom ''r1'' (connected_client default_options 0)))))
       = []
   \<and> getRooms (snd (joinRoom ''r1'' (snd (joinRoom ''r1'' (connected_client default_options 0)))))
       = [''r1'']"
  using room_roundtrip [of "connected_client default_options 0" "''r1''"]
  by (simp add: connected_client_default getRooms_def joinRoom_rooms Set_add_def)

section \<open>C10: manual disconnect\<close>



end
